theory Spec2Isabelle
  imports Main
begin

section \<open>The Seq hook for logrus (logruseq.go)\<close>

text \<open>
  The package is one Go file. A \<open>SeqHook\<close> holds an endpoint, an API key and a slice of
  levels; \<open>NewSeqHook\<close> builds it from a host and a list of option functions, \<open>Levels\<close>
  reads the slice back and \<open>Fire\<close> posts one log entry to the endpoint.

  Go strings and byte slices are modelled as \<open>string\<close> (a list of bytes), slices as
  lists, and the pointer to the options struct that every option function mutates as a
  value that is passed in and returned.
\<close>

subsection \<open>Levels, the hook and its options\<close>

text \<open>
  \<open>logrus.Level\<close>: the seven constants of the logging framework, in its order
  (\<open>PanicLevel\<close> is 0, \<open>TraceLevel\<close> is 6).
\<close>

datatype Level =
  PanicLevel | FatalLevel | ErrorLevel | WarnLevel | InfoLevel | DebugLevel | TraceLevel

record SeqHook =
  endpoint :: string
  apiKey :: string
  levels :: "Level list"

text \<open>
  \<open>SeqHookOptions\<close> has the fields \<open>apiKey\<close> and \<open>levels\<close> too; they are written
  \<open>SeqHookOptions.apiKey\<close> and \<open>SeqHookOptions.levels\<close> below.
\<close>

record SeqHookOptions =
  apiKey :: string
  levels :: "Level list"

definition OptionAPIKey :: "string \<Rightarrow> SeqHookOptions \<Rightarrow> SeqHookOptions" where
  "OptionAPIKey k opts = opts\<lparr>SeqHookOptions.apiKey := k\<rparr>"

definition OptionLevels :: "Level list \<Rightarrow> SeqHookOptions \<Rightarrow> SeqHookOptions" where
  "OptionLevels ls opts = opts\<lparr>SeqHookOptions.levels := ls\<rparr>"

text \<open>
  The options value \<open>NewSeqHook\<close> starts from: the composite literal sets \<open>levels\<close>
  only, so \<open>apiKey\<close> has Go's zero value, the empty string.
\<close>

definition default_options :: SeqHookOptions where
  "default_options =
     \<lparr>SeqHookOptions.apiKey = [],
      SeqHookOptions.levels =
        [TraceLevel, DebugLevel, InfoLevel, WarnLevel, ErrorLevel, FatalLevel, PanicLevel]\<rparr>"

text \<open>The loop \<open>for _, opt := range opts { opt(sho) }\<close>.\<close>

fun apply_opts :: "(SeqHookOptions \<Rightarrow> SeqHookOptions) list \<Rightarrow> SeqHookOptions \<Rightarrow> SeqHookOptions" where
  "apply_opts [] sho = sho"
| "apply_opts (opt # opts) sho = apply_opts opts (opt sho)"

text \<open>\<open>fmt.Sprintf("%v/api/events/raw", host)\<close> prints the string \<open>host\<close> as it is.\<close>

definition NewSeqHook :: "string \<Rightarrow> (SeqHookOptions \<Rightarrow> SeqHookOptions) list \<Rightarrow> SeqHook" where
  "NewSeqHook host opts =
     (let sho = apply_opts opts default_options
      in \<lparr>SeqHook.endpoint = host @ ''/api/events/raw'',
          SeqHook.apiKey = SeqHookOptions.apiKey sho,
          SeqHook.levels = SeqHookOptions.levels sho\<rparr>)"

definition Levels :: "SeqHook \<Rightarrow> Level list" where
  "Levels hook = SeqHook.levels hook"

subsection \<open>Errors, requests and responses\<close>

text \<open>
  A Go \<open>error\<close> value. \<open>Fire\<close> hands on the errors of the libraries it calls as they
  are (\<open>LibError\<close>, with the error's text) and builds one error of its own with
  \<open>fmt.Errorf\<close>, which holds nothing but its message (\<open>ErrorString\<close>).
\<close>

datatype error = LibError string | ErrorString string

text \<open>
  \<open>http.Header\<close> is a map from a field name to the list of its values: \<open>Set\<close>
  replaces the list, \<open>Add\<close> appends to it. (The library stores a name in its canonical
  spelling; HTTP compares field names without regard to case. The names below are
  spelled as the source spells them.)
\<close>

type_synonym Header = "string \<rightharpoonup> string list"

definition Header_Set :: "Header \<Rightarrow> string \<Rightarrow> string \<Rightarrow> Header" where
  "Header_Set h key v = h(key \<mapsto> [v])"

definition Header_Add :: "Header \<Rightarrow> string \<Rightarrow> string \<Rightarrow> Header" where
  "Header_Add h key v = h(key \<mapsto> (case h key of None \<Rightarrow> [] | Some vs \<Rightarrow> vs) @ [v])"

record Request =
  Method :: string
  URL :: string
  Header :: Header
  Body :: string

text \<open>
  Of a response \<open>Fire\<close> reads the status code and, by \<open>ioutil.ReadAll\<close>, the body:
  \<open>Response.Body\<close> is what \<open>ReadAll\<close> returns for it, the bytes or an error.
\<close>

record Response =
  StatusCode :: int
  Body :: "error + string"

subsection \<open>The log entry and the JSON formatter of logrus\<close>

text \<open>
  A value of a structured field (Go's \<open>interface{}\<close>): a string, a value of type
  \<open>error\<close> (with its text), or anything else.
\<close>

datatype 'a iface = VString string | VError string | VOther 'a

type_synonym 'a Fields = "string \<rightharpoonup> 'a iface"

text \<open>
  \<open>logrus.Entry\<close>, as far as the formatter reads it. \<open>Caller\<close> is present when the
  logger reports callers and the entry has a frame (\<open>HasCaller\<close>); it holds the frame's
  function name and its \<open>file:line\<close> text. \<open>err\<close> is the entry's note about a field
  that logrus could not accept, empty when there is none.
\<close>

record ('t, 'a) Entry =
  Data :: "'a Fields"
  Time :: 't
  Level :: Level
  Caller :: "(string \<times> string) option"
  Message :: string
  err :: string

definition HasCaller :: "('t, 'a) Entry \<Rightarrow> bool" where
  "HasCaller entry = (Caller entry \<noteq> None)"

text \<open>\<open>Level.String\<close> of logrus.\<close>

fun Level_String :: "Level \<Rightarrow> string" where
  "Level_String TraceLevel = ''trace''"
| "Level_String DebugLevel = ''debug''"
| "Level_String InfoLevel = ''info''"
| "Level_String WarnLevel = ''warning''"
| "Level_String ErrorLevel = ''error''"
| "Level_String FatalLevel = ''fatal''"
| "Level_String PanicLevel = ''panic''"

type_synonym fieldKey = string

definition FieldKeyMsg :: fieldKey where "FieldKeyMsg = ''msg''"
definition FieldKeyLevel :: fieldKey where "FieldKeyLevel = ''level''"
definition FieldKeyTime :: fieldKey where "FieldKeyTime = ''time''"
definition FieldKeyLogrusError :: fieldKey where "FieldKeyLogrusError = ''logrus_error''"
definition FieldKeyFunc :: fieldKey where "FieldKeyFunc = ''func''"
definition FieldKeyFile :: fieldKey where "FieldKeyFile = ''file''"

type_synonym FieldMap = "fieldKey \<rightharpoonup> string"

definition resolve :: "FieldMap \<Rightarrow> fieldKey \<Rightarrow> string" where
  "resolve f key = (case f key of Some k \<Rightarrow> k | None \<Rightarrow> key)"

text \<open>
  The two fields of \<open>logrus.JSONFormatter\<close> that \<open>Fire\<close> sets. It leaves the others at
  their zero values: no \<open>DataKey\<close>, the timestamp not disabled, no \<open>CallerPrettyfier\<close>.
\<close>

record JSONFormatter =
  TimestampFormat :: string
  FieldMap :: FieldMap

definition RFC3339 :: string where
  "RFC3339 = ''2006-01-02T15:04:05Z07:00''"

definition RFC3339Nano :: string where
  "RFC3339Nano = ''2006-01-02T15:04:05.999999999Z07:00''"

text \<open>
  What \<open>Fire\<close> calls and does not define: \<open>Time.Format\<close> of the entry's time under a
  layout, the JSON encoder the formatter ends with (an error is the one the formatter
  returns for it), the check by which
  \<open>http.NewRequest\<close> refuses a method or URL, and \<open>http.DefaultClient.Do\<close>, the round
  trip to the endpoint.
\<close>

record ('t, 'a) env =
  time_Format :: "'t \<Rightarrow> string \<Rightarrow> string"
  json_Encode :: "'a Fields \<Rightarrow> error + string"
  NewRequest_error :: "string \<Rightarrow> string \<Rightarrow> error option"
  Do :: "Request \<Rightarrow> error + Response"

text \<open>
  \<open>prefixFieldClashes\<close> of logrus: a field of the entry whose name is a key that the
  formatter writes itself is moved to that name prefixed by \<open>fields.\<close>; for the two
  caller keys it is copied there.
\<close>

definition move_clash :: "string \<Rightarrow> 'a Fields \<Rightarrow> 'a Fields" where
  "move_clash key data =
     (case data key of None \<Rightarrow> data | Some v \<Rightarrow> (data(''fields.'' @ key \<mapsto> v))(key := None))"

definition copy_clash :: "string \<Rightarrow> 'a Fields \<Rightarrow> 'a Fields" where
  "copy_clash key data =
     (case data key of None \<Rightarrow> data | Some v \<Rightarrow> data(''fields.'' @ key \<mapsto> v))"

definition prefixFieldClashes :: "'a Fields \<Rightarrow> FieldMap \<Rightarrow> bool \<Rightarrow> 'a Fields" where
  "prefixFieldClashes data fieldMap reportCaller =
     (let data1 = move_clash (resolve fieldMap FieldKeyTime) data;
          data2 = move_clash (resolve fieldMap FieldKeyMsg) data1;
          data3 = move_clash (resolve fieldMap FieldKeyLevel) data2;
          data4 = move_clash (resolve fieldMap FieldKeyLogrusError) data3
      in if reportCaller
         then copy_clash (resolve fieldMap FieldKeyFile)
                (copy_clash (resolve fieldMap FieldKeyFunc) data4)
         else data4)"

text \<open>The formatter's first loop: a field value of type \<open>error\<close> becomes its text.\<close>

fun error_text :: "'a iface \<Rightarrow> 'a iface" where
  "error_text (VError m) = VString m"
| "error_text v = v"

text \<open>
  Modelled from the spec: \<open>JSONFormatter.Format\<close> is code of the logging library, which
  is not among the repository's files; \<open>Fire\<close> only configures and calls it. The record
  it assembles follows section 4.3, step 1 and section 6 of the specification: the
  message under the key resolved for \<open>msg\<close>, the level's name under the one for
  \<open>level\<close>, the time in the formatter's layout under the one for \<open>time\<close>, and the
  entry's fields at top level. The specification does not say what becomes of a field
  whose name is one of the formatter's own keys; there the model follows the library
  (\<open>prefixFieldClashes\<close> above, and the keys \<open>logrus_error\<close>, \<open>func\<close> and \<open>file\<close> the
  library writes when the entry has an error note or a caller).
\<close>

definition JSONFormatter_fields ::
  "('t, 'a) env \<Rightarrow> JSONFormatter \<Rightarrow> ('t, 'a) Entry \<Rightarrow> 'a Fields" where
  "JSONFormatter_fields env f entry =
     (let data0 = (\<lambda>k. map_option error_text (Data entry k));
          data1 = prefixFieldClashes data0 (FieldMap f) (HasCaller entry);
          timestampFormat = (if TimestampFormat f = [] then RFC3339 else TimestampFormat f);
          data2 = (if err entry \<noteq> []
                   then data1(resolve (FieldMap f) FieldKeyLogrusError \<mapsto> VString (err entry))
                   else data1);
          data3 = data2(resolve (FieldMap f) FieldKeyTime \<mapsto>
                    VString (time_Format env (Time entry) timestampFormat));
          data4 = data3(resolve (FieldMap f) FieldKeyMsg \<mapsto> VString (Message entry));
          data5 = data4(resolve (FieldMap f) FieldKeyLevel \<mapsto>
                    VString (Level_String (Level entry)))
      in case Caller entry of
           None \<Rightarrow> data5
         | Some (funcVal, fileVal) \<Rightarrow>
             (let data6 = (if funcVal \<noteq> []
                           then data5(resolve (FieldMap f) FieldKeyFunc \<mapsto> VString funcVal)
                           else data5)
              in if fileVal \<noteq> []
                 then data6(resolve (FieldMap f) FieldKeyFile \<mapsto> VString fileVal)
                 else data6))"

text \<open>
  The keys of the formatter by what it does to a field of that name. A field named as
  one of \<open>moved_keys\<close> is moved to that name prefixed by \<open>fields.\<close>; for an entry with
  a caller, a field named as one of \<open>copied_keys\<close> is copied there. \<open>caller_keys\<close> are
  the keys the formatter writes from the caller, those with a value that is not empty.
  A field is \<open>displaced\<close> when its name is \<open>fields.\<close> followed by a moved or copied key
  that names a field of the entry too.
\<close>

definition moved_keys :: "JSONFormatter \<Rightarrow> string list" where
  "moved_keys f =
     map (resolve (FieldMap f)) [FieldKeyTime, FieldKeyMsg, FieldKeyLevel, FieldKeyLogrusError]"

definition copied_keys :: "JSONFormatter \<Rightarrow> ('t, 'a) Entry \<Rightarrow> string list" where
  "copied_keys f entry =
     (if HasCaller entry then map (resolve (FieldMap f)) [FieldKeyFunc, FieldKeyFile] else [])"

definition caller_keys :: "JSONFormatter \<Rightarrow> ('t, 'a) Entry \<Rightarrow> string list" where
  "caller_keys f entry =
     (case Caller entry of
        None \<Rightarrow> []
      | Some (funcVal, fileVal) \<Rightarrow>
          (if funcVal \<noteq> [] then [resolve (FieldMap f) FieldKeyFunc] else []) @
          (if fileVal \<noteq> [] then [resolve (FieldMap f) FieldKeyFile] else []))"

definition displaced :: "JSONFormatter \<Rightarrow> ('t, 'a) Entry \<Rightarrow> string \<Rightarrow> bool" where
  "displaced f entry k =
     list_ex (\<lambda>r. k = ''fields.'' @ r \<and> Data entry r \<noteq> None)
       (moved_keys f @ copied_keys f entry)"

definition JSONFormatter_Format ::
  "('t, 'a) env \<Rightarrow> JSONFormatter \<Rightarrow> ('t, 'a) Entry \<Rightarrow> error + string" where
  "JSONFormatter_Format env f entry = json_Encode env (JSONFormatter_fields env f entry)"

text \<open>
  \<open>http.NewRequest\<close>: it refuses a method or URL it cannot accept; a request it
  returns has no header field yet.
\<close>

definition http_NewRequest ::
  "('t, 'a) env \<Rightarrow> string \<Rightarrow> string \<Rightarrow> string \<Rightarrow> error + Request" where
  "http_NewRequest env method url body =
     (case NewRequest_error env method url of
        Some e \<Rightarrow> Inl e
      | None \<Rightarrow> Inr \<lparr>Method = method, URL = url, Header = Map.empty, Request.Body = body\<rparr>)"

subsection \<open>Fire\<close>

text \<open>The formatter \<open>Fire\<close> builds (lines 62 to 69).\<close>

definition Fire_formatter :: JSONFormatter where
  "Fire_formatter =
     \<lparr>TimestampFormat = RFC3339Nano,
      FieldMap = [FieldKeyMsg \<mapsto> ''@mt'', FieldKeyLevel \<mapsto> ''@l'', FieldKeyTime \<mapsto> ''@t'']\<rparr>"

text \<open>The header fields \<open>Fire\<close> sets on the request (lines 81 to 85).\<close>

definition Fire_headers :: "SeqHook \<Rightarrow> Request \<Rightarrow> Request" where
  "Fire_headers hook req =
     (let req1 = req\<lparr>Header := Header_Set (Header req) ''Content-Type''
                                 ''application/vnd.serilog.clef''\<rparr>
      in if SeqHook.apiKey hook \<noteq> []
         then req1\<lparr>Header := Header_Add (Header req1) ''X-Seq-ApiKey'' (SeqHook.apiKey hook)\<rparr>
         else req1)"

text \<open>
  What a call of \<open>Fire\<close> can touch: the hook its receiver points to, the requests handed
  to \<open>http.DefaultClient.Do\<close> so far, and the number of response bodies closed. The
  libraries are given the hook's endpoint and API key as strings, never the hook.
\<close>

record state =
  hook :: SeqHook
  requests :: "Request list"
  closed :: nat

text \<open>
  \<open>Fire\<close> returns \<open>None\<close> for Go's \<open>nil\<close> error. Every \<open>return\<close> of the source is a
  branch here, in the source's order; the deferred \<open>resp.Body.Close()\<close> runs on each
  return after \<open>Do\<close> has succeeded, and the source drops what it returns.
\<close>

definition Fire :: "('t, 'a) env \<Rightarrow> ('t, 'a) Entry \<Rightarrow> state \<Rightarrow> error option \<times> state" where
  "Fire env entry s =
     (case JSONFormatter_Format env Fire_formatter entry of
        Inl e \<Rightarrow> (Some e, s)
      | Inr data \<Rightarrow>
          (case http_NewRequest env ''POST'' (SeqHook.endpoint (hook s)) data of
             Inl e \<Rightarrow> (Some e, s)
           | Inr req0 \<Rightarrow>
               (let req = Fire_headers (hook s) req0;
                    s1 = s\<lparr>requests := requests s @ [req]\<rparr>
                in case Do env req of
                     Inl e \<Rightarrow> (Some e, s1)
                   | Inr resp \<Rightarrow>
                       (let s2 = s1\<lparr>closed := closed s1 + 1\<rparr>
                        in if StatusCode resp \<noteq> 201
                           then (case Response.Body resp of
                                   Inl e \<Rightarrow> (Some e, s2)
                                 | Inr body \<Rightarrow>
                                     (Some (ErrorString (''error creating seq event: '' @ body)), s2))
                           else (None, s2)))))"

subsection \<open>A small environment for the closed instances\<close>

text \<open>
  Times are given by their text, every record encodes to \<open>{}\<close>, no URL is refused, and
  the endpoint's answer is the parameter \<open>d\<close>.
\<close>

definition local_env :: "(Request \<Rightarrow> error + Response) \<Rightarrow> (string, nat) env" where
  "local_env d =
     \<lparr>time_Format = (\<lambda>t layout. t), json_Encode = (\<lambda>data. Inr ''{}''),
      NewRequest_error = (\<lambda>method url. None), Do = d\<rparr>"

definition answering :: "int \<Rightarrow> string \<Rightarrow> (string, nat) env" where
  "answering status body =
     local_env (\<lambda>req. Inr \<lparr>StatusCode = status, Response.Body = Inr body\<rparr>)"

definition refusing :: "(string, nat) env" where
  "refusing = local_env (\<lambda>req. Inl (LibError ''connection refused''))"

text \<open>The other failures: of the encoder, of \<open>http.NewRequest\<close>, of reading the body.\<close>

definition unencodable :: "(string, nat) env" where
  "unencodable =
     (answering 201 [])\<lparr>json_Encode := (\<lambda>data. Inl (LibError ''json: unsupported type''))\<rparr>"

definition unparsable :: "(string, nat) env" where
  "unparsable =
     (answering 201 [])\<lparr>NewRequest_error := (\<lambda>method url. Some (LibError ''invalid URL''))\<rparr>"

definition unreadable :: "(string, nat) env" where
  "unreadable =
     local_env (\<lambda>req. Inr \<lparr>StatusCode = 500, Response.Body = Inl (LibError ''unexpected EOF'')\<rparr>)"

definition hello :: "(string, nat) Entry" where
  "hello =
     \<lparr>Data = [''user'' \<mapsto> VString ''alice''], Time = ''2026-01-02T03:04:05.000000006Z'',
      Level = InfoLevel, Caller = None, Message = ''hello'', err = []\<rparr>"

text \<open>
  Entries whose fields meet the formatter's keys: \<open>clash\<close> has a field \<open>@t\<close> and a
  field \<open>fields.@t\<close>, \<open>prefixed\<close> has the field \<open>fields.@t\<close> alone, and \<open>called\<close> has a
  caller and a field \<open>func\<close>.
\<close>

definition clash :: "(string, nat) Entry" where
  "clash = hello\<lparr>Data := [''@t'' \<mapsto> VOther 7, ''fields.@t'' \<mapsto> VOther 8]\<rparr>"

definition prefixed :: "(string, nat) Entry" where
  "prefixed = hello\<lparr>Data := [''fields.@t'' \<mapsto> VOther 8]\<rparr>"

definition called :: "(string, nat) Entry" where
  "called = hello\<lparr>Data := [''func'' \<mapsto> VOther 9],
                  Caller := Some (''main.run'', ''main.go:10'')\<rparr>"

definition fresh :: "SeqHook \<Rightarrow> state" where
  "fresh h = \<lparr>hook = h, requests = [], closed = 0\<rparr>"

section \<open>Properties\<close>

subsection \<open>Construction\<close>

lemma apply_opts_append:
  "apply_opts (xs @ ys) sho = apply_opts ys (apply_opts xs sho)"
  by (induction xs arbitrary: sho) simp_all

lemma apply_opts_OptionAPIKey_levels:
  "SeqHookOptions.levels (apply_opts (map OptionAPIKey ks) sho) = SeqHookOptions.levels sho"
  by (induction ks arbitrary: sho) (simp_all add: OptionAPIKey_def)

lemma apply_opts_OptionLevels_apiKey:
  "SeqHookOptions.apiKey (apply_opts (map OptionLevels lss) sho) = SeqHookOptions.apiKey sho"
  by (induction lss arbitrary: sho) (simp_all add: OptionLevels_def)

lemma UNIV_Level:
  "(UNIV :: Level set) =
     {TraceLevel, DebugLevel, InfoLevel, WarnLevel, ErrorLevel, FatalLevel, PanicLevel}"
proof
  show "(UNIV :: Level set) \<subseteq>
     {TraceLevel, DebugLevel, InfoLevel, WarnLevel, ErrorLevel, FatalLevel, PanicLevel}"
  proof
    fix l :: Level
    show "l \<in> {TraceLevel, DebugLevel, InfoLevel, WarnLevel, ErrorLevel, FatalLevel, PanicLevel}"
      by (cases l) simp_all
  qed
qed simp

text \<open>
  Claim C4. A hook built with no \<open>OptionLevels\<close> among its options (none at all, or
  only \<open>OptionAPIKey\<close> options) reports from \<open>Levels\<close> the seven levels of logrus, each
  once: Trace, Debug, Info, Warn, Error, Fatal, Panic.
\<close>

theorem Levels_default:
  "Levels (NewSeqHook host []) =
     [TraceLevel, DebugLevel, InfoLevel, WarnLevel, ErrorLevel, FatalLevel, PanicLevel]
   \<and> Levels (NewSeqHook host (map OptionAPIKey ks)) = Levels (NewSeqHook host [])
   \<and> set (Levels (NewSeqHook host (map OptionAPIKey ks))) = UNIV
   \<and> distinct (Levels (NewSeqHook host (map OptionAPIKey ks)))"
proof -
  have d: "Levels (NewSeqHook host []) =
     [TraceLevel, DebugLevel, InfoLevel, WarnLevel, ErrorLevel, FatalLevel, PanicLevel]"
    by (simp add: Levels_def NewSeqHook_def default_options_def)
  have k: "Levels (NewSeqHook host (map OptionAPIKey ks)) = Levels (NewSeqHook host [])"
    by (simp add: Levels_def NewSeqHook_def apply_opts_OptionAPIKey_levels)
  have u: "set (Levels (NewSeqHook host (map OptionAPIKey ks))) = UNIV"
    unfolding k d UNIV_Level by simp
  have n: "distinct (Levels (NewSeqHook host (map OptionAPIKey ks)))"
    unfolding k d by simp
  from d k u n show ?thesis by blast
qed

text \<open>
  Claim C5. When \<open>OptionLevels S\<close> is the last option that sets the levels (whatever
  the options before it did, and with any number of \<open>OptionAPIKey\<close> options after it),
  \<open>Levels\<close> of the hook is the slice \<open>S\<close> itself: same elements, same order, nothing
  of the default list left in it.
\<close>

theorem Levels_OptionLevels:
  "Levels (NewSeqHook host [OptionLevels S]) = S
   \<and> Levels (NewSeqHook host (before @ [OptionLevels S] @ map OptionAPIKey ks)) = S"
proof -
  have "Levels (NewSeqHook host (before @ [OptionLevels S] @ map OptionAPIKey ks)) = S"
    by (simp add: Levels_def NewSeqHook_def apply_opts_append
        apply_opts_OptionAPIKey_levels OptionLevels_def)
  moreover have "Levels (NewSeqHook host [OptionLevels S]) = S"
    by (simp add: Levels_def NewSeqHook_def OptionLevels_def)
  ultimately show ?thesis by simp
qed

text \<open>
  Claim C7. The endpoint of the hook is the host string followed by
  \<open>/api/events/raw\<close>, whatever the options are; for the host
  \<open>http://localhost:5341\<close> it is \<open>http://localhost:5341/api/events/raw\<close>.
\<close>

theorem NewSeqHook_endpoint:
  "SeqHook.endpoint (NewSeqHook host opts) = host @ ''/api/events/raw''
   \<and> SeqHook.endpoint (NewSeqHook ''http://localhost:5341'' opts) =
       ''http://localhost:5341/api/events/raw''"
  by (simp add: NewSeqHook_def Let_def)

text \<open>
  Claim C8. Options are applied in the order given and each one overwrites its own
  field: after any options, a second \<open>OptionLevels\<close> or \<open>OptionAPIKey\<close> replaces what
  the first one stored. \<open>OptionLevels S\<close> and \<open>OptionAPIKey k\<close> write different fields,
  so the two orders build the same hook, whose levels are \<open>S\<close> and whose API key is
  \<open>k\<close>.
\<close>

theorem NewSeqHook_option_order:
  "NewSeqHook host (before @ [OptionLevels S, OptionAPIKey k]) =
     NewSeqHook host (before @ [OptionAPIKey k, OptionLevels S])
   \<and> Levels (NewSeqHook host (before @ [OptionLevels S, OptionAPIKey k])) = S
   \<and> SeqHook.apiKey (NewSeqHook host (before @ [OptionLevels S, OptionAPIKey k])) = k
   \<and> Levels (NewSeqHook host (before @ [OptionLevels S', OptionLevels S])) = S
   \<and> SeqHook.apiKey (NewSeqHook host (before @ [OptionAPIKey k', OptionAPIKey k])) = k"
  by (simp add: NewSeqHook_def Levels_def apply_opts_append OptionLevels_def OptionAPIKey_def)

lemma NewSeqHook_apiKey_last:
  "SeqHook.apiKey (NewSeqHook host (before @ OptionAPIKey k # map OptionLevels lss)) = k"
  by (simp add: NewSeqHook_def apply_opts_append apply_opts_OptionLevels_apiKey OptionAPIKey_def)

lemma NewSeqHook_apiKey_none:
  "SeqHook.apiKey (NewSeqHook host (map OptionLevels lss)) = []"
  by (simp add: NewSeqHook_def apply_opts_OptionLevels_apiKey default_options_def)

lemma NewSeqHook_endpoint_any:
  "SeqHook.endpoint (NewSeqHook host opts) = host @ ''/api/events/raw''"
  by (simp add: NewSeqHook_def Let_def)

lemma OptionAPIKey_empty_id:
  "SeqHookOptions.apiKey sho = [] \<Longrightarrow> OptionAPIKey [] sho = sho"
  by (simp add: OptionAPIKey_def)

subsection \<open>The result of Fire\<close>

text \<open>
  Claim C1, as the code has it. When the endpoint answers with a status other than 201
  and the body can be read, \<open>Fire\<close> returns the error made by \<open>fmt.Errorf\<close>, whose
  message is \<open>error creating seq event: \<close> followed by the body as it was read. The
  body is all the error holds of the response: the status is not part of it.
\<close>

theorem Fire_rejected:
  assumes "JSONFormatter_Format env Fire_formatter entry = Inr data"
    and "http_NewRequest env ''POST'' (SeqHook.endpoint (hook s)) data = Inr req0"
    and "Do env (Fire_headers (hook s) req0) = Inr resp"
    and "StatusCode resp \<noteq> 201"
    and "Response.Body resp = Inr body"
  shows "fst (Fire env entry s) = Some (ErrorString (''error creating seq event: '' @ body))"
  using assms by (simp add: Fire_def Let_def)

theorem Fire_rejected_witness:
  "StatusCode \<lparr>StatusCode = 500, Response.Body = Inr ''internal error''\<rparr> \<noteq> 201
   \<and> fst (Fire (answering 500 ''internal error'') hello
             (fresh (NewSeqHook ''http://localhost:5341'' []))) =
       Some (ErrorString ''error creating seq event: internal error'')"
  using Fire_rejected [of "answering 500 ''internal error''" hello "''{}''"
      "fresh (NewSeqHook ''http://localhost:5341'' [])"
      "\<lparr>Method = ''POST'', URL = ''http://localhost:5341/api/events/raw'',
        Header = Map.empty, Request.Body = ''{}''\<rparr>"
      "\<lparr>StatusCode = 500, Response.Body = Inr ''internal error''\<rparr>" "''internal error''"]
  by (simp add: answering_def local_env_def JSONFormatter_Format_def http_NewRequest_def
      fresh_def NewSeqHook_endpoint_any)

text \<open>
  Claim C1 as stated fails: for the status 500 and the body \<open>internal error\<close> the
  error returned is the message \<open>error creating seq event: internal error\<close>, in which
  the status does not occur, and the status 404 with the same body gives the very same
  error.
\<close>

theorem Fire_rejected_no_status:
  "fst (Fire (answering 500 ''internal error'') hello
          (fresh (NewSeqHook ''http://localhost:5341'' []))) =
     Some (ErrorString ''error creating seq event: internal error'')
   \<and> fst (Fire (answering 404 ''internal error'') hello
          (fresh (NewSeqHook ''http://localhost:5341'' []))) =
       fst (Fire (answering 500 ''internal error'') hello
          (fresh (NewSeqHook ''http://localhost:5341'' [])))"
  by (simp add: Fire_def answering_def local_env_def JSONFormatter_Format_def
      http_NewRequest_def Let_def)

text \<open>
  Claim C2. \<open>Fire\<close> returns \<open>nil\<close> exactly when the formatter, \<open>http.NewRequest\<close> and
  \<open>Do\<close> all succeed and the status of the response is 201. Otherwise it returns an
  error: the formatter's, that of \<open>NewRequest\<close>, that of \<open>Do\<close>, that of reading the
  body, or its own for a status other than 201.
\<close>

theorem Fire_nil_iff:
  "((fst (Fire env entry s) = None) =
      (\<exists>data req0 resp.
         JSONFormatter_Format env Fire_formatter entry = Inr data
       \<and> http_NewRequest env ''POST'' (SeqHook.endpoint (hook s)) data = Inr req0
       \<and> Do env (Fire_headers (hook s) req0) = Inr resp
       \<and> StatusCode resp = 201))
   \<and> (\<forall>e. JSONFormatter_Format env Fire_formatter entry = Inl e \<longrightarrow>
          fst (Fire env entry s) = Some e)
   \<and> (\<forall>data e. JSONFormatter_Format env Fire_formatter entry = Inr data
          \<and> http_NewRequest env ''POST'' (SeqHook.endpoint (hook s)) data = Inl e \<longrightarrow>
          fst (Fire env entry s) = Some e)
   \<and> (\<forall>data req0 e. JSONFormatter_Format env Fire_formatter entry = Inr data
          \<and> http_NewRequest env ''POST'' (SeqHook.endpoint (hook s)) data = Inr req0
          \<and> Do env (Fire_headers (hook s) req0) = Inl e \<longrightarrow>
          fst (Fire env entry s) = Some e)
   \<and> (\<forall>data req0 resp e. JSONFormatter_Format env Fire_formatter entry = Inr data
          \<and> http_NewRequest env ''POST'' (SeqHook.endpoint (hook s)) data = Inr req0
          \<and> Do env (Fire_headers (hook s) req0) = Inr resp
          \<and> StatusCode resp \<noteq> 201 \<and> Response.Body resp = Inl e \<longrightarrow>
          fst (Fire env entry s) = Some e)
   \<and> (\<forall>data req0 resp. JSONFormatter_Format env Fire_formatter entry = Inr data
          \<and> http_NewRequest env ''POST'' (SeqHook.endpoint (hook s)) data = Inr req0
          \<and> Do env (Fire_headers (hook s) req0) = Inr resp
          \<and> StatusCode resp \<noteq> 201 \<longrightarrow>
          fst (Fire env entry s) \<noteq> None)"
proof -
  have iff: "(fst (Fire env entry s) = None) =
      (\<exists>data req0 resp.
         JSONFormatter_Format env Fire_formatter entry = Inr data
       \<and> http_NewRequest env ''POST'' (SeqHook.endpoint (hook s)) data = Inr req0
       \<and> Do env (Fire_headers (hook s) req0) = Inr resp
       \<and> StatusCode resp = 201)"
    by (auto simp add: Fire_def Let_def split: sum.splits)
  have f: "\<forall>e. JSONFormatter_Format env Fire_formatter entry = Inl e \<longrightarrow>
          fst (Fire env entry s) = Some e"
    by (simp add: Fire_def)
  have n: "\<forall>data e. JSONFormatter_Format env Fire_formatter entry = Inr data
          \<and> http_NewRequest env ''POST'' (SeqHook.endpoint (hook s)) data = Inl e \<longrightarrow>
          fst (Fire env entry s) = Some e"
    by (simp add: Fire_def)
  have d: "\<forall>data req0 e. JSONFormatter_Format env Fire_formatter entry = Inr data
          \<and> http_NewRequest env ''POST'' (SeqHook.endpoint (hook s)) data = Inr req0
          \<and> Do env (Fire_headers (hook s) req0) = Inl e \<longrightarrow>
          fst (Fire env entry s) = Some e"
    by (simp add: Fire_def Let_def)
  have r: "\<forall>data req0 resp e. JSONFormatter_Format env Fire_formatter entry = Inr data
          \<and> http_NewRequest env ''POST'' (SeqHook.endpoint (hook s)) data = Inr req0
          \<and> Do env (Fire_headers (hook s) req0) = Inr resp
          \<and> StatusCode resp \<noteq> 201 \<and> Response.Body resp = Inl e \<longrightarrow>
          fst (Fire env entry s) = Some e"
    by (simp add: Fire_def Let_def)
  have o: "\<forall>data req0 resp. JSONFormatter_Format env Fire_formatter entry = Inr data
          \<and> http_NewRequest env ''POST'' (SeqHook.endpoint (hook s)) data = Inr req0
          \<and> Do env (Fire_headers (hook s) req0) = Inr resp
          \<and> StatusCode resp \<noteq> 201 \<longrightarrow>
          fst (Fire env entry s) \<noteq> None"
    by (simp add: Fire_def Let_def split: sum.splits)
  from iff f n d r o show ?thesis by blast
qed

theorem Fire_nil_iff_witness:
  "fst (Fire (answering 201 []) hello (fresh (NewSeqHook ''http://localhost:5341'' []))) = None
   \<and> fst (Fire unencodable hello (fresh (NewSeqHook ''http://localhost:5341'' []))) =
       Some (LibError ''json: unsupported type'')
   \<and> fst (Fire unparsable hello (fresh (NewSeqHook ''http://localhost:5341'' []))) =
       Some (LibError ''invalid URL'')
   \<and> fst (Fire refusing hello (fresh (NewSeqHook ''http://localhost:5341'' []))) =
       Some (LibError ''connection refused'')
   \<and> fst (Fire unreadable hello (fresh (NewSeqHook ''http://localhost:5341'' []))) =
       Some (LibError ''unexpected EOF'')
   \<and> fst (Fire (answering 500 ''internal error'') hello
         (fresh (NewSeqHook ''http://localhost:5341'' []))) \<noteq> None"
proof -
  let ?s = "fresh (NewSeqHook ''http://localhost:5341'' [])"
  let ?req = "\<lparr>Method = ''POST'', URL = SeqHook.endpoint (hook ?s), Header = Map.empty,
               Request.Body = ''{}''\<rparr>"
  note defs = answering_def refusing_def unencodable_def unparsable_def unreadable_def
    local_env_def JSONFormatter_Format_def http_NewRequest_def
  have ok: "fst (Fire (answering 201 []) hello ?s) = None"
    using Fire_nil_iff [of "answering 201 []" hello ?s, THEN conjunct1]
    by (simp add: defs)
  have enc: "fst (Fire unencodable hello ?s) = Some (LibError ''json: unsupported type'')"
    using Fire_nil_iff [of unencodable hello ?s, THEN conjunct2, THEN conjunct1]
    by (simp add: defs)
  have url: "fst (Fire unparsable hello ?s) = Some (LibError ''invalid URL'')"
    using Fire_nil_iff [of unparsable hello ?s, THEN conjunct2, THEN conjunct2, THEN conjunct1]
    by (simp add: defs)
  have net: "fst (Fire refusing hello ?s) = Some (LibError ''connection refused'')"
    using Fire_nil_iff [of refusing hello ?s, THEN conjunct2, THEN conjunct2, THEN conjunct2,
        THEN conjunct1, rule_format, of "''{}''" ?req "LibError ''connection refused''"]
    by (simp add: defs)
  have rd: "fst (Fire unreadable hello ?s) = Some (LibError ''unexpected EOF'')"
    using Fire_nil_iff [of unreadable hello ?s, THEN conjunct2, THEN conjunct2, THEN conjunct2,
        THEN conjunct2, THEN conjunct1, rule_format, of "''{}''" ?req
        "\<lparr>StatusCode = 500, Response.Body = Inl (LibError ''unexpected EOF'')\<rparr>"
        "LibError ''unexpected EOF''"]
    by (simp add: defs)
  have rej: "fst (Fire (answering 500 ''internal error'') hello ?s) \<noteq> None"
    using Fire_nil_iff [of "answering 500 ''internal error''" hello ?s, THEN conjunct2,
        THEN conjunct2, THEN conjunct2, THEN conjunct2, THEN conjunct2, rule_format,
        of "''{}''" ?req "\<lparr>StatusCode = 500, Response.Body = Inr ''internal error''\<rparr>"]
    by (simp add: defs)
  from ok enc url net rd rej show ?thesis by blast
qed

text \<open>
  Claim C9. \<open>Fire\<close> never assigns to the hook: on every return (success or any of the
  errors) the hook is the one the call started with, and so are its endpoint, its API
  key and its levels.
\<close>

theorem Fire_keeps_hook:
  "hook (snd (Fire env entry s)) = hook s
   \<and> SeqHook.endpoint (hook (snd (Fire env entry s))) = SeqHook.endpoint (hook s)
   \<and> SeqHook.apiKey (hook (snd (Fire env entry s))) = SeqHook.apiKey (hook s)
   \<and> Levels (hook (snd (Fire env entry s))) = Levels (hook s)"
proof -
  have "hook (snd (Fire env entry s)) = hook s"
    by (simp add: Fire_def Let_def split: sum.splits)
  then show ?thesis by simp
qed

subsection \<open>The request Fire sends\<close>

lemma Fire_requests_sent:
  assumes "JSONFormatter_Format env Fire_formatter entry = Inr data"
    and "NewRequest_error env ''POST'' (SeqHook.endpoint (hook s)) = None"
  shows "requests (snd (Fire env entry s)) =
           requests s @ [Fire_headers (hook s)
             \<lparr>Method = ''POST'', URL = SeqHook.endpoint (hook s), Header = Map.empty,
              Request.Body = data\<rparr>]"
  using assms by (simp add: Fire_def http_NewRequest_def Let_def split: sum.splits)

lemma Fire_requests_cases:
  "requests (snd (Fire env entry s)) = requests s
   \<or> (\<exists>data. requests (snd (Fire env entry s)) =
         requests s @ [Fire_headers (hook s)
           \<lparr>Method = ''POST'', URL = SeqHook.endpoint (hook s), Header = Map.empty,
            Request.Body = data\<rparr>])"
proof (cases "JSONFormatter_Format env Fire_formatter entry")
  case (Inl e)
  then show ?thesis by (simp add: Fire_def)
next
  case (Inr data)
  show ?thesis
  proof (cases "NewRequest_error env ''POST'' (SeqHook.endpoint (hook s))")
    case None
    from Fire_requests_sent[OF Inr None] show ?thesis by blast
  next
    case (Some e)
    with Inr show ?thesis by (simp add: Fire_def http_NewRequest_def)
  qed
qed

lemma Fire_headers_api_key:
  "Header (Fire_headers h \<lparr>Method = m, URL = u, Header = Map.empty, Request.Body = b\<rparr>)
     ''X-Seq-ApiKey'' =
   (if SeqHook.apiKey h = [] then None else Some [SeqHook.apiKey h])"
  by (simp add: Fire_headers_def Header_Set_def Header_Add_def Let_def)

lemma Fire_headers_Body:
  "Request.Body (Fire_headers h req) = Request.Body req"
  by (simp add: Fire_headers_def Let_def)

text \<open>
  Claim C6. Let the formatter succeed and \<open>http.NewRequest\<close> accept the endpoint, so
  that \<open>Fire\<close> hands a request to \<open>Do\<close>. For a hook built with \<open>OptionAPIKey k\<close>, \<open>k\<close>
  not empty, as its last API key option, that request has the header \<open>X-Seq-ApiKey\<close>
  with the one value \<open>k\<close>. For a hook built with no API key option the request has no
  such header.
\<close>

theorem Fire_api_key_header:
  assumes "JSONFormatter_Format env Fire_formatter entry = Inr data"
    and "NewRequest_error env ''POST'' (host @ ''/api/events/raw'') = None"
  shows "(k \<noteq> [] \<longrightarrow>
           (\<exists>req. requests (snd (Fire env entry
                      (s\<lparr>hook := NewSeqHook host (before @ [OptionAPIKey k] @ map OptionLevels lss)\<rparr>))) =
                    requests s @ [req]
                  \<and> Header req ''X-Seq-ApiKey'' = Some [k]))
       \<and> (\<exists>req. requests (snd (Fire env entry
                      (s\<lparr>hook := NewSeqHook host (map OptionLevels lss)\<rparr>))) =
                    requests s @ [req]
                  \<and> Header req ''X-Seq-ApiKey'' = None)"
proof -
  let ?with = "s\<lparr>hook := NewSeqHook host (before @ [OptionAPIKey k] @ map OptionLevels lss)\<rparr>"
  let ?without = "s\<lparr>hook := NewSeqHook host (map OptionLevels lss)\<rparr>"
  have w: "NewRequest_error env ''POST'' (SeqHook.endpoint (hook ?with)) = None"
    using assms(2) by (simp add: NewSeqHook_endpoint_any)
  have wo: "NewRequest_error env ''POST'' (SeqHook.endpoint (hook ?without)) = None"
    using assms(2) by (simp add: NewSeqHook_endpoint_any)
  have a: "k \<noteq> [] \<longrightarrow>
           (\<exists>req. requests (snd (Fire env entry ?with)) = requests s @ [req]
                  \<and> Header req ''X-Seq-ApiKey'' = Some [k])"
    using Fire_requests_sent[OF assms(1) w]
    by (simp add: Fire_headers_api_key NewSeqHook_apiKey_last)
  have b: "\<exists>req. requests (snd (Fire env entry ?without)) = requests s @ [req]
                  \<and> Header req ''X-Seq-ApiKey'' = None"
    using Fire_requests_sent[OF assms(1) wo]
    by (simp add: Fire_headers_api_key NewSeqHook_apiKey_none)
  from a b show ?thesis by blast
qed

theorem Fire_api_key_header_witness:
  "JSONFormatter_Format (answering 201 []) Fire_formatter hello = Inr ''{}''
   \<and> Header (last (requests (snd (Fire (answering 201 []) hello
         (fresh (NewSeqHook ''http://localhost:5341'' [OptionAPIKey ''k1'']))))))
       ''X-Seq-ApiKey'' = Some [''k1'']
   \<and> Header (last (requests (snd (Fire (answering 201 []) hello
         (fresh (NewSeqHook ''http://localhost:5341'' []))))))
       ''X-Seq-ApiKey'' = None"
proof -
  have f: "JSONFormatter_Format (answering 201 []) Fire_formatter hello = Inr ''{}''"
    by (simp add: JSONFormatter_Format_def answering_def local_env_def)
  have n: "NewRequest_error (answering 201 []) ''POST''
             (''http://localhost:5341'' @ ''/api/events/raw'') = None"
    by (simp add: answering_def local_env_def)
  have u: "fresh (NewSeqHook ''http://localhost:5341'' [])
             \<lparr>hook := NewSeqHook ''http://localhost:5341'' ([] @ [OptionAPIKey ''k1''] @ map OptionLevels [])\<rparr>
           = fresh (NewSeqHook ''http://localhost:5341'' [OptionAPIKey ''k1''])"
    by (simp add: fresh_def)
  have v: "fresh (NewSeqHook ''http://localhost:5341'' [])
             \<lparr>hook := NewSeqHook ''http://localhost:5341'' (map OptionLevels [])\<rparr>
           = fresh (NewSeqHook ''http://localhost:5341'' [])"
    by (simp add: fresh_def)
  from Fire_api_key_header [OF f n, where k = "''k1''" and before = "[]" and lss = "[]"
      and s = "fresh (NewSeqHook ''http://localhost:5341'' [])"]
  have "(\<exists>req. requests (snd (Fire (answering 201 []) hello
                  (fresh (NewSeqHook ''http://localhost:5341'' [OptionAPIKey ''k1''])))) =
                requests (fresh (NewSeqHook ''http://localhost:5341'' [])) @ [req]
              \<and> Header req ''X-Seq-ApiKey'' = Some [''k1''])
       \<and> (\<exists>req. requests (snd (Fire (answering 201 []) hello
                  (fresh (NewSeqHook ''http://localhost:5341'' [])))) =
                requests (fresh (NewSeqHook ''http://localhost:5341'' [])) @ [req]
              \<and> Header req ''X-Seq-ApiKey'' = None)"
    unfolding u v by simp
  with f show ?thesis by auto
qed

text \<open>
  Claim C10. \<open>OptionAPIKey\<close> with the empty string leaves the options as they were
  when no key was set before: among level options it builds the same hook as no API
  key option at all. Whatever the options before it, a hook whose last API key option
  is the empty string has the empty API key, and \<open>Fire\<close> hands at most one request to
  \<open>Do\<close>, with no \<open>X-Seq-ApiKey\<close> header.
\<close>

theorem Fire_empty_api_key:
  "NewSeqHook host (map OptionLevels lss @ [OptionAPIKey []] @ map OptionLevels lss') =
     NewSeqHook host (map OptionLevels lss @ map OptionLevels lss')
   \<and> SeqHook.apiKey (NewSeqHook host (before @ [OptionAPIKey []] @ map OptionLevels lss)) = []
   \<and> (\<exists>rs. requests (snd (Fire env entry
                (s\<lparr>hook := NewSeqHook host (before @ [OptionAPIKey []] @ map OptionLevels lss)\<rparr>))) =
              requests s @ rs
            \<and> length rs \<le> 1
            \<and> (\<forall>req \<in> set rs. Header req ''X-Seq-ApiKey'' = None))"
proof -
  let ?s = "s\<lparr>hook := NewSeqHook host (before @ [OptionAPIKey []] @ map OptionLevels lss)\<rparr>"
  have e: "apply_opts [OptionAPIKey []] (apply_opts (map OptionLevels lss) default_options) =
           apply_opts (map OptionLevels lss) default_options"
    by (simp add: OptionAPIKey_empty_id apply_opts_OptionLevels_apiKey default_options_def)
  have a: "NewSeqHook host (map OptionLevels lss @ [OptionAPIKey []] @ map OptionLevels lss') =
     NewSeqHook host (map OptionLevels lss @ map OptionLevels lss')"
    unfolding NewSeqHook_def apply_opts_append e ..
  have b: "SeqHook.apiKey (hook ?s) = []"
    by (simp add: NewSeqHook_apiKey_last)
  have c: "\<exists>rs. requests (snd (Fire env entry ?s)) = requests s @ rs \<and> length rs \<le> 1
            \<and> (\<forall>req \<in> set rs. Header req ''X-Seq-ApiKey'' = None)"
  proof -
    from Fire_requests_cases[of env entry ?s] show ?thesis
    proof
      assume "requests (snd (Fire env entry ?s)) = requests ?s"
      then have "requests (snd (Fire env entry ?s)) = requests s @ []" by simp
      then show ?thesis by (intro exI[of _ "[]"]) simp
    next
      assume "\<exists>data. requests (snd (Fire env entry ?s)) =
         requests ?s @ [Fire_headers (hook ?s)
           \<lparr>Method = ''POST'', URL = SeqHook.endpoint (hook ?s), Header = Map.empty,
            Request.Body = data\<rparr>]"
      then obtain data where d: "requests (snd (Fire env entry ?s)) =
         requests ?s @ [Fire_headers (hook ?s)
           \<lparr>Method = ''POST'', URL = SeqHook.endpoint (hook ?s), Header = Map.empty,
            Request.Body = data\<rparr>]" ..
      show ?thesis
        by (rule exI[of _ "[Fire_headers (hook ?s)
           \<lparr>Method = ''POST'', URL = SeqHook.endpoint (hook ?s), Header = Map.empty,
            Request.Body = data\<rparr>]"])
           (use d b in \<open>simp add: Fire_headers_api_key\<close>)
    qed
  qed
  from a b c show ?thesis by simp
qed

theorem Fire_empty_api_key_witness:
  "NewSeqHook ''http://localhost:5341'' [OptionAPIKey []] = NewSeqHook ''http://localhost:5341'' []
   \<and> length (requests (snd (Fire (answering 201 []) hello
         (fresh (NewSeqHook ''http://localhost:5341'' [OptionAPIKey []]))))) = 1
   \<and> Header (last (requests (snd (Fire (answering 201 []) hello
         (fresh (NewSeqHook ''http://localhost:5341'' [OptionAPIKey []]))))))
       ''X-Seq-ApiKey'' = None"
proof -
  let ?h = "NewSeqHook ''http://localhost:5341'' [OptionAPIKey []]"
  have u: "fresh (NewSeqHook ''http://localhost:5341'' [])
             \<lparr>hook := NewSeqHook ''http://localhost:5341'' ([] @ [OptionAPIKey []] @ map OptionLevels [])\<rparr>
           = fresh ?h"
    by (simp add: fresh_def)
  have f: "JSONFormatter_Format (answering 201 []) Fire_formatter hello = Inr ''{}''"
    by (simp add: JSONFormatter_Format_def answering_def local_env_def)
  have n: "NewRequest_error (answering 201 []) ''POST'' (SeqHook.endpoint (hook (fresh ?h))) = None"
    by (simp add: answering_def local_env_def)
  have l: "length (requests (snd (Fire (answering 201 []) hello (fresh ?h)))) = 1"
    unfolding Fire_requests_sent [OF f n] by (simp add: fresh_def)
  note raw = Fire_empty_api_key [where host = "''http://localhost:5341''" and lss = "[]"
      and lss' = "[]" and before = "[]" and env = "answering 201 []" and entry = hello
      and s = "fresh (NewSeqHook ''http://localhost:5341'' [])"]
  from raw [THEN conjunct1] have t: "?h = NewSeqHook ''http://localhost:5341'' []"
    by simp
  from raw [THEN conjunct2, THEN conjunct2]
  have "\<exists>rs. requests (snd (Fire (answering 201 []) hello (fresh ?h))) =
              requests (fresh (NewSeqHook ''http://localhost:5341'' [])) @ rs
            \<and> (\<forall>req \<in> set rs. Header req ''X-Seq-ApiKey'' = None)"
    unfolding u by blast
  then obtain rs where rs: "requests (snd (Fire (answering 201 []) hello (fresh ?h))) = rs"
      and no: "\<forall>req \<in> set rs. Header req ''X-Seq-ApiKey'' = None"
    by (auto simp add: fresh_def)
  from l rs have "rs \<noteq> []" by auto
  then have "last rs \<in> set rs" by simp
  with no have "Header (last rs) ''X-Seq-ApiKey'' = None" by blast
  with t l rs show ?thesis by simp
qed

subsection \<open>The record Fire sends\<close>

lemma resolve_Fire:
  "resolve (FieldMap Fire_formatter) FieldKeyTime = ''@t''"
  "resolve (FieldMap Fire_formatter) FieldKeyMsg = ''@mt''"
  "resolve (FieldMap Fire_formatter) FieldKeyLevel = ''@l''"
  "resolve (FieldMap Fire_formatter) FieldKeyLogrusError = ''logrus_error''"
  "resolve (FieldMap Fire_formatter) FieldKeyFunc = ''func''"
  "resolve (FieldMap Fire_formatter) FieldKeyFile = ''file''"
  by (simp_all add: resolve_def Fire_formatter_def FieldKeyMsg_def FieldKeyLevel_def
      FieldKeyTime_def FieldKeyLogrusError_def FieldKeyFunc_def FieldKeyFile_def)

lemma moved_keys_Fire:
  "moved_keys Fire_formatter = [''@t'', ''@mt'', ''@l'', ''logrus_error'']"
  by (simp add: moved_keys_def resolve_Fire)

lemma copied_keys_Fire:
  "copied_keys Fire_formatter entry = (if HasCaller entry then [''func'', ''file''] else [])"
  by (simp add: copied_keys_def resolve_Fire)

lemma move_clash_apply:
  "move_clash key data k =
     (if k = key then None
      else if k = ''fields.'' @ key then (case data key of None \<Rightarrow> data k | Some v \<Rightarrow> Some v)
      else data k)"
  by (simp add: move_clash_def split: option.splits)

lemma copy_clash_apply:
  "copy_clash key data k =
     (if k = ''fields.'' @ key then (case data key of None \<Rightarrow> data k | Some v \<Rightarrow> Some v)
      else data k)"
  by (simp add: copy_clash_def split: option.splits)

lemma prefixFieldClashes_moved:
  "prefixFieldClashes data (FieldMap Fire_formatter) False k =
     (if k \<in> set (moved_keys Fire_formatter) then None
      else if k = ''fields.@t''
        then (case data ''@t'' of None \<Rightarrow> data k | Some v \<Rightarrow> Some v)
      else if k = ''fields.@mt''
        then (case data ''@mt'' of None \<Rightarrow> data k | Some v \<Rightarrow> Some v)
      else if k = ''fields.@l''
        then (case data ''@l'' of None \<Rightarrow> data k | Some v \<Rightarrow> Some v)
      else if k = ''fields.logrus_error''
        then (case data ''logrus_error'' of None \<Rightarrow> data k | Some v \<Rightarrow> Some v)
      else data k)"
  unfolding prefixFieldClashes_def Let_def resolve_Fire moved_keys_Fire
  by (simp add: move_clash_apply cong: option.case_cong)

lemma prefixFieldClashes_copied:
  "prefixFieldClashes data (FieldMap Fire_formatter) True k =
     (if k = ''fields.file''
        then (case data ''file'' of None \<Rightarrow> data k | Some v \<Rightarrow> Some v)
      else if k = ''fields.func''
        then (case data ''func'' of None \<Rightarrow> data k | Some v \<Rightarrow> Some v)
      else prefixFieldClashes data (FieldMap Fire_formatter) False k)"
  unfolding prefixFieldClashes_def Let_def resolve_Fire
  by (simp add: move_clash_apply copy_clash_apply cong: option.case_cong)

lemma caller_keys_Fire:
  "caller_keys Fire_formatter entry =
     (case Caller entry of
        None \<Rightarrow> []
      | Some (funcVal, fileVal) \<Rightarrow>
          (if funcVal \<noteq> [] then [''func''] else []) @
          (if fileVal \<noteq> [] then [''file''] else []))"
  unfolding caller_keys_def resolve_Fire ..

lemma displaced_Fire:
  "displaced Fire_formatter entry k =
     ((k = ''fields.@t'' \<and> Data entry ''@t'' \<noteq> None)
      \<or> (k = ''fields.@mt'' \<and> Data entry ''@mt'' \<noteq> None)
      \<or> (k = ''fields.@l'' \<and> Data entry ''@l'' \<noteq> None)
      \<or> (k = ''fields.logrus_error'' \<and> Data entry ''logrus_error'' \<noteq> None)
      \<or> (HasCaller entry \<and> k = ''fields.func'' \<and> Data entry ''func'' \<noteq> None)
      \<or> (HasCaller entry \<and> k = ''fields.file'' \<and> Data entry ''file'' \<noteq> None))"
  by (cases "HasCaller entry") (simp_all add: displaced_def moved_keys_Fire copied_keys_Fire)

lemma prefixFieldClashes_kept:
  assumes "k \<notin> set (moved_keys Fire_formatter)"
    and "\<not> displaced Fire_formatter entry k"
  shows "prefixFieldClashes (\<lambda>k. map_option error_text (Data entry k))
           (FieldMap Fire_formatter) (HasCaller entry) k =
         map_option error_text (Data entry k)"
proof (cases "HasCaller entry")
  case False
  with assms show ?thesis
    by (simp add: prefixFieldClashes_moved displaced_Fire)
next
  case True
  with assms show ?thesis
    by (simp add: prefixFieldClashes_copied prefixFieldClashes_moved displaced_Fire)
qed

lemma prefixFieldClashes_prefixed:
  assumes "Data entry r = Some v"
    and "r \<in> set (moved_keys Fire_formatter @ copied_keys Fire_formatter entry)"
  shows "prefixFieldClashes (\<lambda>k. map_option error_text (Data entry k))
           (FieldMap Fire_formatter) (HasCaller entry) (''fields.'' @ r) =
         Some (error_text v)"
proof (cases "HasCaller entry")
  case False
  with assms have "r = ''@t'' \<or> r = ''@mt'' \<or> r = ''@l'' \<or> r = ''logrus_error''"
    by (simp add: moved_keys_Fire copied_keys_Fire)
  with assms(1) False show ?thesis
    by (elim disjE) (simp_all add: prefixFieldClashes_moved moved_keys_Fire)
next
  case True
  with assms have "r = ''@t'' \<or> r = ''@mt'' \<or> r = ''@l'' \<or> r = ''logrus_error''
      \<or> r = ''func'' \<or> r = ''file''"
    by (simp add: moved_keys_Fire copied_keys_Fire)
  with assms(1) True show ?thesis
    by (elim disjE)
      (simp_all add: prefixFieldClashes_copied prefixFieldClashes_moved moved_keys_Fire)
qed

lemma prefixFieldClashes_logrus_error:
  "prefixFieldClashes data (FieldMap Fire_formatter) c ''logrus_error'' = None"
  by (cases c) (simp_all add: prefixFieldClashes_copied prefixFieldClashes_moved moved_keys_Fire)

lemma Fire_timestampFormat:
  "(if TimestampFormat Fire_formatter = [] then RFC3339 else TimestampFormat Fire_formatter) =
     RFC3339Nano"
  by (simp add: Fire_formatter_def RFC3339Nano_def)

lemma fields_msg:
  "JSONFormatter_fields env Fire_formatter entry ''@mt'' = Some (VString (Message entry))"
proof (cases "Caller entry")
  case None
  then show ?thesis
    unfolding JSONFormatter_fields_def Let_def resolve_Fire by simp
next
  case (Some c)
  obtain funcVal fileVal where c: "c = (funcVal, fileVal)" by (cases c)
  show ?thesis
    unfolding JSONFormatter_fields_def Let_def resolve_Fire Some c by simp
qed

lemma fields_level:
  "JSONFormatter_fields env Fire_formatter entry ''@l'' =
     Some (VString (Level_String (Level entry)))"
proof (cases "Caller entry")
  case None
  then show ?thesis
    unfolding JSONFormatter_fields_def Let_def resolve_Fire by simp
next
  case (Some c)
  obtain funcVal fileVal where c: "c = (funcVal, fileVal)" by (cases c)
  show ?thesis
    unfolding JSONFormatter_fields_def Let_def resolve_Fire Some c by simp
qed

lemma fields_time:
  "JSONFormatter_fields env Fire_formatter entry ''@t'' =
     Some (VString (time_Format env (Time entry) RFC3339Nano))"
proof (cases "Caller entry")
  case None
  then show ?thesis
    unfolding JSONFormatter_fields_def Let_def resolve_Fire Fire_timestampFormat by simp
next
  case (Some c)
  obtain funcVal fileVal where c: "c = (funcVal, fileVal)" by (cases c)
  show ?thesis
    unfolding JSONFormatter_fields_def Let_def resolve_Fire Some c Fire_timestampFormat by simp
qed

lemma fields_logrus_error:
  "JSONFormatter_fields env Fire_formatter entry ''logrus_error'' =
     (if err entry = [] then None else Some (VString (err entry)))"
proof (cases "Caller entry")
  case None
  then show ?thesis
    unfolding JSONFormatter_fields_def Let_def resolve_Fire
    by (simp add: prefixFieldClashes_logrus_error)
next
  case (Some c)
  obtain funcVal fileVal where c: "c = (funcVal, fileVal)" by (cases c)
  show ?thesis
    unfolding JSONFormatter_fields_def Let_def resolve_Fire Some c
    by (simp add: prefixFieldClashes_logrus_error)
qed

lemma fields_caller:
  assumes "Caller entry = Some (funcVal, fileVal)"
  shows "(funcVal \<noteq> [] \<longrightarrow>
            JSONFormatter_fields env Fire_formatter entry ''func'' = Some (VString funcVal))
       \<and> (fileVal \<noteq> [] \<longrightarrow>
            JSONFormatter_fields env Fire_formatter entry ''file'' = Some (VString fileVal))"
  unfolding JSONFormatter_fields_def Let_def resolve_Fire assms by simp

text \<open>A key that the formatter does not write holds what \<open>prefixFieldClashes\<close> left there.\<close>

lemma fields_unwritten:
  assumes "k \<notin> set (moved_keys Fire_formatter)"
    and "k \<notin> set (caller_keys Fire_formatter entry)"
  shows "JSONFormatter_fields env Fire_formatter entry k =
         prefixFieldClashes (\<lambda>k. map_option error_text (Data entry k))
           (FieldMap Fire_formatter) (HasCaller entry) k"
proof (cases "Caller entry")
  case None
  with assms show ?thesis
    unfolding JSONFormatter_fields_def Let_def resolve_Fire moved_keys_Fire caller_keys_Fire
    by simp
next
  case (Some c)
  obtain funcVal fileVal where c: "c = (funcVal, fileVal)" by (cases c)
  from assms show ?thesis
    unfolding JSONFormatter_fields_def Let_def resolve_Fire moved_keys_Fire caller_keys_Fire
      Some c
    by simp
qed

lemma fields_kept:
  assumes "Data entry k = Some v"
    and "k \<notin> set (moved_keys Fire_formatter)"
    and "k \<notin> set (caller_keys Fire_formatter entry)"
    and "\<not> displaced Fire_formatter entry k"
  shows "JSONFormatter_fields env Fire_formatter entry k = Some (error_text v)"
  unfolding fields_unwritten [OF assms(2,3)] prefixFieldClashes_kept [OF assms(2,4)]
  using assms(1) by simp

lemma fields_prefixed:
  assumes "Data entry r = Some v"
    and "r \<in> set (moved_keys Fire_formatter @ copied_keys Fire_formatter entry)"
  shows "JSONFormatter_fields env Fire_formatter entry (''fields.'' @ r) = Some (error_text v)"
proof -
  from assms(2) have m: "''fields.'' @ r \<notin> set (moved_keys Fire_formatter)"
    by (auto simp add: moved_keys_Fire copied_keys_Fire split: if_splits)
  from assms(2) have c: "''fields.'' @ r \<notin> set (caller_keys Fire_formatter entry)"
    by (auto simp add: moved_keys_Fire copied_keys_Fire caller_keys_Fire
        split: if_splits option.splits)
  show ?thesis
    unfolding fields_unwritten [OF m c] by (rule prefixFieldClashes_prefixed [OF assms])
qed

text \<open>
  Claim C3, as the formatter has it. In the record that \<open>Fire\<close> has encoded and posts
  as the body of its request, \<open>@mt\<close> is the entry's message, \<open>@l\<close> the name of its
  level and \<open>@t\<close> its time in the layout \<open>RFC3339Nano\<close>. A field of the entry is in
  the record under its own name (a value of type \<open>error\<close> as its text) except in three
  cases. Its name is \<open>@t\<close>, \<open>@mt\<close>, \<open>@l\<close> or \<open>logrus_error\<close>: the field is then
  under its name prefixed by \<open>fields.\<close>, and \<open>logrus_error\<close> holds the entry's error
  note or nothing. The entry has a caller and the field's name is \<open>func\<close> or \<open>file\<close>,
  with a caller's function name or file text that is not empty: the key then holds the
  caller's, and the field is under its name prefixed by \<open>fields.\<close>. Its name is
  \<open>fields.\<close> followed by one of these six names, that name being a field of the entry
  too (and, for \<open>func\<close> and \<open>file\<close>, the entry having a caller): the key then holds
  that other field.
\<close>

theorem Fire_record:
  "JSONFormatter_fields env Fire_formatter entry ''@mt'' = Some (VString (Message entry))
   \<and> JSONFormatter_fields env Fire_formatter entry ''@l'' =
       Some (VString (Level_String (Level entry)))
   \<and> JSONFormatter_fields env Fire_formatter entry ''@t'' =
       Some (VString (time_Format env (Time entry) RFC3339Nano))
   \<and> (\<forall>k v. Data entry k = Some v
          \<and> k \<notin> set (moved_keys Fire_formatter)
          \<and> k \<notin> set (caller_keys Fire_formatter entry)
          \<and> \<not> displaced Fire_formatter entry k \<longrightarrow>
          JSONFormatter_fields env Fire_formatter entry k = Some (error_text v))
   \<and> (\<forall>r v. Data entry r = Some v
          \<and> r \<in> set (moved_keys Fire_formatter @ copied_keys Fire_formatter entry) \<longrightarrow>
          JSONFormatter_fields env Fire_formatter entry (''fields.'' @ r) =
            Some (error_text v))
   \<and> JSONFormatter_fields env Fire_formatter entry ''logrus_error'' =
       (if err entry = [] then None else Some (VString (err entry)))
   \<and> (\<forall>funcVal fileVal. Caller entry = Some (funcVal, fileVal) \<longrightarrow>
          (funcVal \<noteq> [] \<longrightarrow>
             JSONFormatter_fields env Fire_formatter entry ''func'' = Some (VString funcVal))
        \<and> (fileVal \<noteq> [] \<longrightarrow>
             JSONFormatter_fields env Fire_formatter entry ''file'' = Some (VString fileVal)))
   \<and> moved_keys Fire_formatter = [''@t'', ''@mt'', ''@l'', ''logrus_error'']
   \<and> copied_keys Fire_formatter entry = (if HasCaller entry then [''func'', ''file''] else [])
   \<and> caller_keys Fire_formatter entry =
       (case Caller entry of
          None \<Rightarrow> []
        | Some (funcVal, fileVal) \<Rightarrow>
            (if funcVal \<noteq> [] then [''func''] else []) @
            (if fileVal \<noteq> [] then [''file''] else []))
   \<and> (\<forall>data. json_Encode env (JSONFormatter_fields env Fire_formatter entry) = Inr data
          \<and> NewRequest_error env ''POST'' (SeqHook.endpoint (hook s)) = None \<longrightarrow>
          (\<exists>req. requests (snd (Fire env entry s)) = requests s @ [req]
                 \<and> Request.Body req = data))"
proof -
  have kept: "\<forall>k v. Data entry k = Some v
          \<and> k \<notin> set (moved_keys Fire_formatter)
          \<and> k \<notin> set (caller_keys Fire_formatter entry)
          \<and> \<not> displaced Fire_formatter entry k \<longrightarrow>
          JSONFormatter_fields env Fire_formatter entry k = Some (error_text v)"
    using fields_kept by blast
  have pre: "\<forall>r v. Data entry r = Some v
          \<and> r \<in> set (moved_keys Fire_formatter @ copied_keys Fire_formatter entry) \<longrightarrow>
          JSONFormatter_fields env Fire_formatter entry (''fields.'' @ r) =
            Some (error_text v)"
    using fields_prefixed by blast
  have cal: "\<forall>funcVal fileVal. Caller entry = Some (funcVal, fileVal) \<longrightarrow>
          (funcVal \<noteq> [] \<longrightarrow>
             JSONFormatter_fields env Fire_formatter entry ''func'' = Some (VString funcVal))
        \<and> (fileVal \<noteq> [] \<longrightarrow>
             JSONFormatter_fields env Fire_formatter entry ''file'' = Some (VString fileVal))"
    using fields_caller by blast
  have body: "\<forall>data. json_Encode env (JSONFormatter_fields env Fire_formatter entry) = Inr data
          \<and> NewRequest_error env ''POST'' (SeqHook.endpoint (hook s)) = None \<longrightarrow>
          (\<exists>req. requests (snd (Fire env entry s)) = requests s @ [req]
                 \<and> Request.Body req = data)"
  proof (intro allI impI, elim conjE)
    fix data
    assume e: "json_Encode env (JSONFormatter_fields env Fire_formatter entry) = Inr data"
      and n: "NewRequest_error env ''POST'' (SeqHook.endpoint (hook s)) = None"
    from e have f: "JSONFormatter_Format env Fire_formatter entry = Inr data"
      by (simp add: JSONFormatter_Format_def)
    show "\<exists>req. requests (snd (Fire env entry s)) = requests s @ [req]
                 \<and> Request.Body req = data"
      unfolding Fire_requests_sent [OF f n] by (simp add: Fire_headers_Body)
  qed
  note parts = fields_msg [of env entry] fields_level [of env entry] fields_time [of env entry]
    kept pre fields_logrus_error [of env entry] cal moved_keys_Fire
    copied_keys_Fire [of entry] caller_keys_Fire [of entry] body
  show ?thesis
    by (intro conjI) (rule parts)+
qed

theorem Fire_record_witness:
  "Data hello ''user'' = Some (VString ''alice'')
   \<and> JSONFormatter_fields (answering 201 []) Fire_formatter hello ''user'' =
       Some (VString ''alice'')
   \<and> JSONFormatter_fields (answering 201 []) Fire_formatter hello ''@mt'' =
       Some (VString ''hello'')
   \<and> JSONFormatter_fields (answering 201 []) Fire_formatter hello ''@l'' =
       Some (VString ''info'')
   \<and> JSONFormatter_fields (answering 201 []) Fire_formatter hello ''@t'' =
       Some (VString ''2026-01-02T03:04:05.000000006Z'')
   \<and> Request.Body (last (requests (snd (Fire (answering 201 []) hello
         (fresh (NewSeqHook ''http://localhost:5341'' [])))))) = ''{}''
   \<and> JSONFormatter_fields (answering 201 []) Fire_formatter prefixed ''fields.@t'' =
       Some (VOther 8)
   \<and> JSONFormatter_fields (answering 201 []) Fire_formatter clash ''fields.@t'' =
       Some (VOther 7)
   \<and> JSONFormatter_fields (answering 201 []) Fire_formatter called ''func'' =
       Some (VString ''main.run'')
   \<and> JSONFormatter_fields (answering 201 []) Fire_formatter called ''fields.func'' =
       Some (VOther 9)"
proof -
  let ?e = "answering 201 []"
  let ?s = "fresh (NewSeqHook ''http://localhost:5341'' [])"
  note r = Fire_record [where env = ?e and entry = hello and s = ?s]
  note kept = conjunct2 [THEN conjunct2, THEN conjunct2, THEN conjunct1]
  note pre = conjunct2 [THEN conjunct2, THEN conjunct2, THEN conjunct2, THEN conjunct1]
  note cal = conjunct2 [THEN conjunct2, THEN conjunct2, THEN conjunct2, THEN conjunct2,
      THEN conjunct2, THEN conjunct1]
  note body = conjunct2 [THEN conjunct2, THEN conjunct2, THEN conjunct2, THEN conjunct2,
      THEN conjunct2, THEN conjunct2, THEN conjunct2, THEN conjunct2, THEN conjunct2]
  have d: "Data hello ''user'' = Some (VString ''alice'')"
    by (simp add: hello_def)
  have u: "JSONFormatter_fields ?e Fire_formatter hello ''user'' = Some (VString ''alice'')"
    using r [THEN kept, rule_format, of "''user''" "VString ''alice''"]
    by (simp add: hello_def moved_keys_Fire caller_keys_Fire displaced_Fire)
  have m: "JSONFormatter_fields ?e Fire_formatter hello ''@mt'' = Some (VString ''hello'')"
    using r [THEN conjunct1] by (simp add: hello_def)
  have l: "JSONFormatter_fields ?e Fire_formatter hello ''@l'' = Some (VString ''info'')"
    using r [THEN conjunct2, THEN conjunct1] by (simp add: hello_def)
  have t: "JSONFormatter_fields ?e Fire_formatter hello ''@t'' =
       Some (VString ''2026-01-02T03:04:05.000000006Z'')"
    using r [THEN conjunct2, THEN conjunct2, THEN conjunct1]
    by (simp add: hello_def answering_def local_env_def)
  have "\<exists>req. requests (snd (Fire ?e hello ?s)) = requests ?s @ [req]
             \<and> Request.Body req = ''{}''"
    using r [THEN body, rule_format, of "''{}''"] by (simp add: answering_def local_env_def)
  then have b: "Request.Body (last (requests (snd (Fire ?e hello ?s)))) = ''{}''"
    by auto
  have p: "JSONFormatter_fields ?e Fire_formatter prefixed ''fields.@t'' = Some (VOther 8)"
    using Fire_record [where env = ?e and entry = prefixed and s = ?s, THEN kept, rule_format,
        of "''fields.@t''" "VOther 8"]
    by (simp add: prefixed_def hello_def moved_keys_Fire caller_keys_Fire displaced_Fire)
  have c: "JSONFormatter_fields ?e Fire_formatter clash ''fields.@t'' = Some (VOther 7)"
    using Fire_record [where env = ?e and entry = clash and s = ?s, THEN pre, rule_format,
        of "''@t''" "VOther 7"]
    by (simp add: clash_def hello_def moved_keys_Fire)
  have f: "JSONFormatter_fields ?e Fire_formatter called ''func'' = Some (VString ''main.run'')"
    using Fire_record [where env = ?e and entry = called and s = ?s, THEN cal, rule_format,
        of "''main.run''" "''main.go:10''"]
    by (simp add: called_def hello_def)
  have h: "HasCaller called"
    by (simp add: HasCaller_def called_def hello_def)
  have g: "JSONFormatter_fields ?e Fire_formatter called ''fields.func'' = Some (VOther 9)"
    using Fire_record [where env = ?e and entry = called and s = ?s, THEN pre, rule_format,
        of "''func''" "VOther 9"] h
    by (simp add: called_def hello_def moved_keys_Fire copied_keys_Fire)
  from d u m l t b p c f g show ?thesis by blast
qed

text \<open>
  Claim C3 as stated fails for a field named as a key of the formatter. The entry
  \<open>clash\<close> has a field \<open>@t\<close> with the value 7 and a field \<open>fields.@t\<close> with the value
  8: in the record \<open>@t\<close> is the time and \<open>fields.@t\<close> is 7, so neither field is under
  its own name. The entry \<open>called\<close> has a caller and a field \<open>func\<close> with the value 9:
  in the record \<open>func\<close> is the caller's function name. (The record has one value for a
  key, so a key could not hold the formatter's value and the field at once.)
\<close>

theorem Fire_record_clash:
  "Data clash ''@t'' = Some (VOther 7)
   \<and> JSONFormatter_fields (answering 201 []) Fire_formatter clash ''@t'' =
       Some (VString ''2026-01-02T03:04:05.000000006Z'')
   \<and> JSONFormatter_fields (answering 201 []) Fire_formatter clash ''@t'' \<noteq> Some (VOther 7)
   \<and> Data clash ''fields.@t'' = Some (VOther 8)
   \<and> JSONFormatter_fields (answering 201 []) Fire_formatter clash ''fields.@t'' =
       Some (VOther 7)
   \<and> Data called ''func'' = Some (VOther 9)
   \<and> JSONFormatter_fields (answering 201 []) Fire_formatter called ''func'' =
       Some (VString ''main.run'')"
proof -
  note defs = clash_def called_def hello_def JSONFormatter_fields_def Let_def resolve_Fire
    Fire_timestampFormat prefixFieldClashes_def move_clash_def copy_clash_def answering_def
    local_env_def HasCaller_def
  have a: "Data clash ''@t'' = Some (VOther 7)"
    by (simp add: clash_def)
  have b: "JSONFormatter_fields (answering 201 []) Fire_formatter clash ''@t'' =
       Some (VString ''2026-01-02T03:04:05.000000006Z'')"
    by (simp add: defs)
  have c: "Data clash ''fields.@t'' = Some (VOther 8)"
    by (simp add: clash_def)
  have d: "JSONFormatter_fields (answering 201 []) Fire_formatter clash ''fields.@t'' =
       Some (VOther 7)"
    by (simp add: defs)
  have e: "Data called ''func'' = Some (VOther 9)"
    by (simp add: called_def)
  have f: "JSONFormatter_fields (answering 201 []) Fire_formatter called ''func'' =
       Some (VString ''main.run'')"
    by (simp add: defs)
  from a b c d e f show ?thesis by simp
qed

end
